theory Spec2Isabelle
  imports Main
begin

section \<open>Session and authentication lifecycle of the blog server\<close>

text \<open>
  The development embeds three pieces of the repository:
  \<^item> the class \<open>SessionManager\<close> (token issuance, verification, revocation registry and the
    \<open>authenticate\<close> interceptor);
  \<^item> the handler of \<open>POST /api/auth/login\<close> in \<open>server.js\<close> (lockout controller);
  \<^item> the class \<open>AuthManager\<close> of \<open>scripts/auth-manager.js\<close> (client session mirror).

  Times read with \<open>Date.now()\<close> or \<open>new Date()\<close> are integers in milliseconds; the
  \<open>iat\<close> and \<open>exp\<close> claims of a token are integers in seconds, as in the code.
\<close>

subsection \<open>Configuration (\<open>server.js\<close>, the object \<open>config\<close>)\<close>

record config =
  jwtSecret :: string
  sessionTimeout :: int
  maxLoginAttempts :: int
  lockoutDuration :: int

text \<open>The secret comes from the environment; the other fields are literals of the source.\<close>

definition server_config :: "string \<Rightarrow> config" where
  "server_config secret =
     \<lparr> jwtSecret = secret,
       sessionTimeout = 30 * 60 * 1000,
       maxLoginAttempts = 5,
       lockoutDuration = 15 * 60 * 1000 \<rparr>"

subsection \<open>The token library\<close>

text \<open>
  \<open>jsonwebtoken\<close> is a dependency, not code of the repository. Its serialisation and its
  keyed signature are a parameter of the model: \<open>encode\<close> turns a secret and a set of claims
  into the token string, \<open>decode\<close> parses a string and checks its signature under a secret.
  What the library does with the options the repository passes to it (\<open>expiresIn\<close>,
  \<open>issuer\<close>, \<open>audience\<close>) is written out in \<open>jwt_sign\<close> and \<open>jwt_verify\<close>.
\<close>

record claims =
  c_id :: int
  c_username :: string
  c_role :: string
  c_iat :: int
  c_ip :: string
  c_userAgent :: string
  c_exp :: "int option"
  c_iss :: "string option"
  c_aud :: "string option"

datatype decoded = Malformed | BadSignature | Payload claims

record jwt_lib =
  encode :: "string \<Rightarrow> claims \<Rightarrow> string"
  decode :: "string \<Rightarrow> string \<Rightarrow> decoded"

datatype jwt_error =
    JwtMalformed
  | InvalidSignature
  | JwtExpired
  | AudienceInvalid
  | IssuerInvalid

text \<open>
  \<open>jwt.sign(payload, secret, {expiresIn: '30m', issuer, audience})\<close>: the payload carries
  its own \<open>iat\<close>, so the library sets \<open>exp = iat + 1800\<close> and adds the two tags.
\<close>

definition token_lifetime :: int where
  "token_lifetime = 30 * 60"

definition sign_claims :: "claims \<Rightarrow> claims" where
  "sign_claims payload =
     payload\<lparr> c_exp := Some (c_iat payload + token_lifetime),
               c_iss := Some ''blog-system'',
               c_aud := Some ''blog-users'' \<rparr>"

definition jwt_sign :: "jwt_lib \<Rightarrow> string \<Rightarrow> claims \<Rightarrow> string" where
  "jwt_sign L secret payload = encode L secret (sign_claims payload)"

text \<open>
  \<open>jwt.verify(token, secret, {issuer, audience})\<close> at clock \<open>now\<close> (milliseconds): the
  token is parsed, the signature checked, then expiry (\<open>floor(now / 1000) >= exp\<close> is
  expired), then audience, then issuer.
\<close>

definition jwt_verify :: "jwt_lib \<Rightarrow> string \<Rightarrow> int \<Rightarrow> string \<Rightarrow> jwt_error + claims" where
  "jwt_verify L secret now token =
     (case decode L secret token of
        Malformed \<Rightarrow> Inl JwtMalformed
      | BadSignature \<Rightarrow> Inl InvalidSignature
      | Payload p \<Rightarrow>
          if (case c_exp p of None \<Rightarrow> False | Some e \<Rightarrow> now div 1000 \<ge> e) then Inl JwtExpired
          else if c_aud p \<noteq> Some ''blog-users'' then Inl AudienceInvalid
          else if c_iss p \<noteq> Some ''blog-system'' then Inl IssuerInvalid
          else Inr p)"

subsection \<open>\<open>SessionManager\<close>\<close>

record user_row =
  user_id :: int
  username :: string
  password_hash :: string
  role :: string
  login_attempts :: int
  locked_until :: "int option"
  last_login :: "int option"

text \<open>The part of an Express request the session manager reads.\<close>

record request =
  req_ip :: string
  req_userAgent :: "string option"
  req_authorization :: "string option"

text \<open>\<open>req.get('User-Agent')?.substring(0, 100) || 'unknown'\<close>\<close>

definition userAgent_claim :: "string option \<Rightarrow> string" where
  "userAgent_claim ua =
     (case ua of
        None \<Rightarrow> ''unknown''
      | Some s \<Rightarrow> if take 100 s = [] then ''unknown'' else take 100 s)"

definition token_payload :: "user_row \<Rightarrow> request \<Rightarrow> int \<Rightarrow> claims" where
  "token_payload user req now =
     \<lparr> c_id = user_id user,
       c_username = username user,
       c_role = role user,
       c_iat = now div 1000,
       c_ip = req_ip req,
       c_userAgent = userAgent_claim (req_userAgent req),
       c_exp = None,
       c_iss = None,
       c_aud = None \<rparr>"

definition generateToken :: "jwt_lib \<Rightarrow> config \<Rightarrow> user_row \<Rightarrow> request \<Rightarrow> int \<Rightarrow> string" where
  "generateToken L cfg user req now = jwt_sign L (jwtSecret cfg) (token_payload user req now)"

text \<open>
  Every failure of \<open>verifyToken\<close> is rethrown as \<open>Token validation failed: ...\<close>; the cause
  is kept as the argument of the one error constructor.
\<close>

datatype cause = Library jwt_error | Revoked

datatype verify_error = ValidationFailed cause

text \<open>
  \<open>verifyToken\<close> returns the decoded claims or throws; the only other effect is the
  \<open>console.warn\<close> of the IP check, returned as the list of warnings. \<open>strict\<close> is
  \<open>process.env.STRICT_IP_CHECK === 'true'\<close>.
\<close>

definition verifyToken ::
  "jwt_lib \<Rightarrow> config \<Rightarrow> bool \<Rightarrow> string set \<Rightarrow> int \<Rightarrow> string \<Rightarrow> request
     \<Rightarrow> (verify_error + claims) \<times> string list" where
  "verifyToken L cfg strict tokenBlacklist now token req =
     (case jwt_verify L (jwtSecret cfg) now token of
        Inl e \<Rightarrow> (Inl (ValidationFailed (Library e)), [])
      | Inr decoded \<Rightarrow>
          if token \<in> tokenBlacklist then (Inl (ValidationFailed Revoked), [])
          else if strict \<and> c_ip decoded \<noteq> req_ip req
               then (Inr decoded,
                     [''IP mismatch for user '' @ c_username decoded @ '': '' @ c_ip decoded
                        @ '' vs '' @ req_ip req])
               else (Inr decoded, []))"

definition revokeToken :: "string \<Rightarrow> string set \<Rightarrow> string set" where
  "revokeToken token tokenBlacklist = insert token tokenBlacklist"

definition cleanupBlacklist :: "string set \<Rightarrow> string set" where
  "cleanupBlacklist tokenBlacklist =
     (if card tokenBlacklist > 1000 then {} else tokenBlacklist)"

text \<open>\<open>str.split(sep)\<close> of JavaScript for a one-character separator.\<close>

fun split_on :: "char \<Rightarrow> string \<Rightarrow> string list" where
  "split_on sep [] = [[]]"
| "split_on sep (x # xs) =
     (if x = sep then [] # split_on sep xs
      else (case split_on sep xs of
              [] \<Rightarrow> [[x]]
            | y # ys \<Rightarrow> (x # y) # ys))"

text \<open>
  \<open>const token = authHeader && authHeader.split(' ')[1]\<close> followed by \<open>if (!token)\<close>:
  a missing or empty header, a header of one field, and an empty second field all count as
  no token.
\<close>

definition extract_token :: "string option \<Rightarrow> string option" where
  "extract_token authHeader =
     (case authHeader of
        None \<Rightarrow> None
      | Some h \<Rightarrow>
          if h = [] then None
          else (case split_on CHR '' '' h of
                  _ # t # _ \<Rightarrow> if t = [] then None else Some t
                | _ \<Rightarrow> None))"

text \<open>
  The interceptor either answers (status, code, development-only details) or calls
  \<open>next()\<close> with \<open>req.user\<close> and \<open>req.token\<close> set. \<open>dev\<close> is
  \<open>process.env.NODE_ENV === 'development'\<close>. After a successful verification the handler
  logs \<open>new Date(user.exp * 1000).toISOString()\<close> inside the same \<open>try\<close>: that call throws on a
  missing or out-of-range \<open>exp\<close>, and the \<open>catch\<close> answers 403 then too.
\<close>

datatype auth_result =
    Respond nat string "string option"
  | Next claims string

definition cause_message :: "cause \<Rightarrow> string" where
  "cause_message c =
     (case c of
        Revoked \<Rightarrow> ''Token has been revoked''
      | Library JwtMalformed \<Rightarrow> ''jwt malformed''
      | Library InvalidSignature \<Rightarrow> ''invalid signature''
      | Library JwtExpired \<Rightarrow> ''jwt expired''
      | Library AudienceInvalid \<Rightarrow> ''jwt audience invalid. expected: blog-users''
      | Library IssuerInvalid \<Rightarrow> ''jwt issuer invalid. expected: blog-system'')"

definition error_message :: "verify_error \<Rightarrow> string" where
  "error_message e = (case e of ValidationFailed c \<Rightarrow> ''Token validation failed: '' @ cause_message c)"

definition max_date_ms :: int where
  "max_date_ms = 8640000000000000"

definition iso_string_ok :: "int option \<Rightarrow> bool" where
  "iso_string_ok e =
     (case e of None \<Rightarrow> False | Some s \<Rightarrow> - max_date_ms \<le> s * 1000 \<and> s * 1000 \<le> max_date_ms)"

definition authenticate ::
  "jwt_lib \<Rightarrow> config \<Rightarrow> bool \<Rightarrow> bool \<Rightarrow> string set \<Rightarrow> int \<Rightarrow> request \<Rightarrow> auth_result" where
  "authenticate L cfg strict dev tokenBlacklist now req =
     (case extract_token (req_authorization req) of
        None \<Rightarrow> Respond 401 ''NO_TOKEN'' None
      | Some token \<Rightarrow>
          (case fst (verifyToken L cfg strict tokenBlacklist now token req) of
             Inl e \<Rightarrow> Respond 403 ''INVALID_TOKEN'' (if dev then Some (error_message e) else None)
           | Inr user \<Rightarrow>
               if iso_string_ok (c_exp user) then Next user token
               else Respond 403 ''INVALID_TOKEN'' (if dev then Some ''Invalid time value'' else None)))"

text \<open>
  The handler of \<open>POST /api/auth/logout\<close>, behind the interceptor: the one place of the
  repository that changes the registry. It revokes \<open>req.token\<close> when that is set.
\<close>

datatype logout_response =
    NotAuthenticated nat string
  | LogoutSuccessful int string

definition logout ::
  "jwt_lib \<Rightarrow> config \<Rightarrow> bool \<Rightarrow> bool \<Rightarrow> int \<Rightarrow> request \<Rightarrow> string set
     \<Rightarrow> logout_response \<times> string set" where
  "logout L cfg strict dev now req tokenBlacklist =
     (case authenticate L cfg strict dev tokenBlacklist now req of
        Respond code name details \<Rightarrow> (NotAuthenticated code name, tokenBlacklist)
      | Next user token \<Rightarrow>
          (LogoutSuccessful (c_id user) (c_username user),
           if token \<noteq> [] then revokeToken token tokenBlacklist else tokenBlacklist))"

subsection \<open>The login handler (\<open>POST /api/auth/login\<close>)\<close>

text \<open>
  The table \<open>users\<close> is a list of rows. The column \<open>locked_until\<close> holds the ISO string
  written by \<open>toISOString()\<close> and read back by \<open>new Date(...)\<close>; both have millisecond
  precision, so the model keeps the instant itself, and \<open>None\<close> for \<open>NULL\<close>.
\<close>

type_synonym users_table = "user_row list"

text \<open>\<open>SELECT ... FROM users WHERE username = ?\<close> with \<open>.get\<close>: the first matching row.\<close>

definition select_user :: "users_table \<Rightarrow> string \<Rightarrow> user_row option" where
  "select_user db name = find (\<lambda>r. username r = name) db"

text \<open>\<open>UPDATE users SET login_attempts = ?, locked_until = ? WHERE id = ?\<close>\<close>

definition update_failed :: "users_table \<Rightarrow> int \<Rightarrow> int option \<Rightarrow> int \<Rightarrow> users_table" where
  "update_failed db newAttempts lockUntil uid =
     map (\<lambda>r. if user_id r = uid
               then r\<lparr> login_attempts := newAttempts, locked_until := lockUntil \<rparr>
               else r) db"

text \<open>
  \<open>UPDATE users SET login_attempts = 0, locked_until = NULL, last_login = CURRENT_TIMESTAMP
  WHERE id = ?\<close>
\<close>

definition update_success :: "users_table \<Rightarrow> int \<Rightarrow> int \<Rightarrow> users_table" where
  "update_success db stamp uid =
     map (\<lambda>r. if user_id r = uid
               then r\<lparr> login_attempts := 0, locked_until := None, last_login := Some stamp \<rparr>
               else r) db"

text \<open>
  \<open>const lockedUntil = user.locked_until ? new Date(user.locked_until) : null;
  const isLocked = lockedUntil && now < lockedUntil;\<close>
\<close>

definition isLocked :: "int option \<Rightarrow> int \<Rightarrow> bool" where
  "isLocked lockedUntil now = (case lockedUntil of None \<Rightarrow> False | Some t \<Rightarrow> now < t)"

text \<open>
  What one run of the handler gets from outside: the outcome of the input validators and
  of the captcha check, whether the statements on the database succeed, and the readings
  of the clock: \<open>new Date()\<close> at the lock check, \<open>Date.now()\<close> after the password
  comparison (for the lock expiry, or for the \<open>iat\<close> of the token), and the
  \<open>CURRENT_TIMESTAMP\<close> of the database.
\<close>

record login_env =
  validation_ok :: bool
  captcha_success :: bool
  select_ok :: bool
  update_ok :: bool
  clock_check :: int
  clock_after :: int
  clock_db :: int

record login_body =
  body_username :: string
  body_password :: string

text \<open>
  The state the handler works on: the table, and the number of calls of
  \<open>bcrypt.compare\<close> made so far (kept to state that a locked attempt makes none).
\<close>

record login_state =
  users :: users_table
  compare_calls :: nat

datatype login_response =
    InvalidInput
  | CaptchaFailed
  | InvalidCredentials
  | AccountLocked
  | LoginSuccessful string int string string
  | DatabaseError

fun status :: "login_response \<Rightarrow> nat" where
  "status InvalidInput = 400"
| "status CaptchaFailed = 400"
| "status InvalidCredentials = 401"
| "status AccountLocked = 423"
| "status (LoginSuccessful token uid name r) = 200"
| "status DatabaseError = 500"

text \<open>
  \<open>compare\<close> is \<open>bcrypt.compare(password, hash)\<close>. A failing \<open>UPDATE\<close> is caught and
  only logged, so the answer is the same and the table stays as it was.
\<close>

definition login ::
  "jwt_lib \<Rightarrow> config \<Rightarrow> (string \<Rightarrow> string \<Rightarrow> bool) \<Rightarrow> login_env \<Rightarrow> request \<Rightarrow> login_body
     \<Rightarrow> login_state \<Rightarrow> login_response \<times> login_state" where
  "login L cfg compare env req body st =
     (if \<not> validation_ok env then (InvalidInput, st)
      else if \<not> captcha_success env then (CaptchaFailed, st)
      else if \<not> select_ok env then (DatabaseError, st)
      else (case select_user (users st) (body_username body) of
              None \<Rightarrow> (InvalidCredentials, st)
            | Some user \<Rightarrow>
                if isLocked (locked_until user) (clock_check env) then (AccountLocked, st)
                else
                  let st1 = st\<lparr> compare_calls := Suc (compare_calls st) \<rparr> in
                  if \<not> compare (body_password body) (password_hash user) then
                    let newAttempts = login_attempts user + 1;
                        shouldLock = (newAttempts \<ge> maxLoginAttempts cfg);
                        lockUntil = (if shouldLock
                                     then Some (clock_after env + lockoutDuration cfg)
                                     else None)
                    in (InvalidCredentials,
                        if update_ok env
                        then st1\<lparr> users := update_failed (users st1) newAttempts lockUntil (user_id user) \<rparr>
                        else st1)
                  else
                    (LoginSuccessful (generateToken L cfg user req (clock_after env))
                       (user_id user) (username user) (role user),
                     if update_ok env
                     then st1\<lparr> users := update_success (users st1) (clock_db env) (user_id user) \<rparr>
                     else st1)))"

text \<open>A sequence of login requests, each with its own environment, run in order.\<close>

fun logins ::
  "jwt_lib \<Rightarrow> config \<Rightarrow> (string \<Rightarrow> string \<Rightarrow> bool) \<Rightarrow> (login_env \<times> request \<times> login_body) list
     \<Rightarrow> login_state \<Rightarrow> login_response list \<times> login_state" where
  "logins L cfg compare [] st = ([], st)"
| "logins L cfg compare ((env, req, body) # rest) st =
     (let (r, st1) = login L cfg compare env req body st;
          (rs, st2) = logins L cfg compare rest st1
      in (r # rs, st2))"

text \<open>
  The assumptions under which a login request gets as far as the password comparison and
  its database update: valid input, a solved captcha, working statements.
\<close>

definition admitted :: "login_env \<Rightarrow> bool" where
  "admitted env \<longleftrightarrow> validation_ok env \<and> captcha_success env \<and> select_ok env \<and> update_ok env"

text \<open>A request for user \<open>name\<close> whose password does not match the stored hash of \<open>u\<close>.\<close>

definition failed_attempt ::
  "(string \<Rightarrow> string \<Rightarrow> bool) \<Rightarrow> string \<Rightarrow> user_row \<Rightarrow> login_env \<times> request \<times> login_body \<Rightarrow> bool" where
  "failed_attempt compare name u a \<longleftrightarrow>
     (case a of (env, req, body) \<Rightarrow>
        admitted env \<and> body_username body = name \<and> \<not> compare (body_password body) (password_hash u))"

subsection \<open>The client session mirror (\<open>AuthManager\<close>)\<close>

text \<open>
  \<open>localStorage\<close> holds the session under \<open>auth_session\<close> (as \<open>btoa(JSON.stringify(...))\<close>;
  the model keeps the record, and \<open>None\<close> for a missing or unreadable entry) and the
  fingerprint under \<open>auth_fingerprint\<close>; \<open>sessionStorage\<close> holds \<open>auth_active\<close>. Every
  \<open>Date.now()\<close> of a callback is a parameter of its own, as is the instant at which the
  timers are set. \<open>fp\<close> is what \<open>generateFingerprint()\<close> returns in the current browser.

  The timeouts of the page are a table of pending entries: \<open>setTimeout\<close> appends an entry
  under a fresh handle and returns the handle, \<open>clearTimeout\<close> removes the entry of a
  handle. The fields \<open>sessionTimer\<close> and \<open>warningTimer\<close> of the class hold handles, and
  \<open>null\<close> is \<open>None\<close>. A timeout that is not cleared stays pending, whatever the fields hold.
\<close>

datatype timer_callback = ShowSessionWarning | HandleSessionTimeout | HideSessionWarning

record timeout =
  timer_id :: nat
  fires_at :: int
  callback :: timer_callback

record session_data =
  sd_token :: string
  sd_username :: string
  sd_role :: string
  loginTime :: int
  expiresAt :: int
  csrfToken :: string

record browser =
  auth_session :: "session_data option"
  auth_fingerprint :: "string option"
  auth_active :: "string option"
  sessionTimer :: "nat option"
  warningTimer :: "nat option"
  warning_shown :: bool
  pending :: "timeout list"
  next_timer_id :: nat

definition client_sessionTimeout :: int where
  "client_sessionTimeout = 30 * 60 * 1000"

definition warningTime :: int where
  "warningTime = 5 * 60 * 1000"

definition storeSession :: "string \<Rightarrow> session_data \<Rightarrow> browser \<Rightarrow> browser" where
  "storeSession fp sessionData b =
     b\<lparr> auth_session := Some sessionData,
        auth_active := Some ''true'',
        auth_fingerprint := Some fp \<rparr>"

definition getSession :: "string \<Rightarrow> browser \<Rightarrow> session_data option" where
  "getSession fp b =
     (case auth_session b of
        None \<Rightarrow> None
      | Some sessionData \<Rightarrow>
          if auth_fingerprint b \<noteq> Some fp then None else Some sessionData)"

definition isSessionValid :: "int \<Rightarrow> browser \<Rightarrow> session_data \<Rightarrow> bool" where
  "isSessionValid now b sessionData =
     (if sd_token sessionData = [] \<or> expiresAt sessionData = 0 then False
      else if now > expiresAt sessionData then False
      else (case auth_active b of
              None \<Rightarrow> False
            | Some isActive \<Rightarrow> isActive \<noteq> []))"

definition setTimeout :: "timer_callback \<Rightarrow> int \<Rightarrow> int \<Rightarrow> browser \<Rightarrow> nat \<times> browser" where
  "setTimeout cb delay now b =
     (next_timer_id b,
      b\<lparr> pending := pending b @ [\<lparr> timer_id = next_timer_id b, fires_at = now + delay, callback = cb \<rparr>],
         next_timer_id := Suc (next_timer_id b) \<rparr>)"

definition clearTimeout :: "nat \<Rightarrow> browser \<Rightarrow> browser" where
  "clearTimeout handle b = b\<lparr> pending := filter (\<lambda>t. timer_id t \<noteq> handle) (pending b) \<rparr>"

text \<open>
  \<open>if (this.sessionTimer) { clearTimeout(this.sessionTimer); this.sessionTimer = null; }\<close>
  and the same for \<open>warningTimer\<close>; a handle of 0 is falsy.
\<close>

definition clearTimers :: "browser \<Rightarrow> browser" where
  "clearTimers b =
     (let b1 = (case sessionTimer b of
                  None \<Rightarrow> b
                | Some h \<Rightarrow> if h \<noteq> 0 then (clearTimeout h b)\<lparr> sessionTimer := None \<rparr> else b)
      in (case warningTimer b1 of
            None \<Rightarrow> b1
          | Some h \<Rightarrow> if h \<noteq> 0 then (clearTimeout h b1)\<lparr> warningTimer := None \<rparr> else b1))"

definition startSessionTimer :: "int \<Rightarrow> browser \<Rightarrow> browser" where
  "startSessionTimer now b =
     (let b0 = clearTimers b;
          (w, b1) = setTimeout ShowSessionWarning (client_sessionTimeout - warningTime) now b0;
          b2 = b1\<lparr> warningTimer := Some w \<rparr>;
          (s, b3) = setTimeout HandleSessionTimeout client_sessionTimeout now b2
      in b3\<lparr> sessionTimer := Some s \<rparr>)"

definition hideSessionWarning :: "browser \<Rightarrow> browser" where
  "hideSessionWarning b = b\<lparr> warning_shown := False \<rparr>"

text \<open>
  \<open>handleSuccessfulLogin\<close>: the mirror is built from the login response; the redirect
  that follows is not part of the state.
\<close>

definition handleSuccessfulLogin ::
  "string \<Rightarrow> int \<Rightarrow> int \<Rightarrow> int \<Rightarrow> string \<Rightarrow> login_response \<Rightarrow> browser \<Rightarrow> browser" where
  "handleSuccessfulLogin fp t_login t_expiry t_timers csrf response b =
     (case response of
        LoginSuccessful token uid name r \<Rightarrow>
          startSessionTimer t_timers
            (storeSession fp
               \<lparr> sd_token = token, sd_username = name, sd_role = r, loginTime = t_login,
                 expiresAt = t_expiry + client_sessionTimeout, csrfToken = csrf \<rparr> b)
      | _ \<Rightarrow> b)"

text \<open>
  The listener of \<open>mousedown\<close>, \<open>mousemove\<close>, \<open>keypress\<close>, \<open>scroll\<close> and \<open>touchstart\<close>.
  \<open>t_check\<close> is the clock read by \<open>isSessionValid\<close>, \<open>now\<close> the one read for the new
  expiry, \<open>t_timers\<close> the instant at which \<open>startSessionTimer\<close> runs.
\<close>

definition extendSession :: "string \<Rightarrow> int \<Rightarrow> int \<Rightarrow> int \<Rightarrow> browser \<Rightarrow> browser" where
  "extendSession fp t_check now t_timers b =
     (case getSession fp b of
        None \<Rightarrow> b
      | Some sessionData \<Rightarrow>
          if isSessionValid t_check b sessionData
          then hideSessionWarning
                 (startSessionTimer t_timers
                    (storeSession fp (sessionData\<lparr> expiresAt := now + client_sessionTimeout \<rparr>) b))
          else b)"

subsection \<open>Contract of the token library, and concrete data for the examples\<close>

text \<open>
  The one property of the library the theorems on issued tokens rest on: a token it made
  from claims \<open>p\<close> under a secret decodes, under that secret, to \<open>p\<close>.
\<close>

definition reads_back :: "jwt_lib \<Rightarrow> string \<Rightarrow> claims \<Rightarrow> bool" where
  "reads_back L secret p \<longleftrightarrow> decode L secret (encode L secret p) = Payload p"

text \<open>
  A library that knows one token, for the examples: it writes every set of claims as the
  same string and reads that string back as \<open>p0\<close> under \<open>secret0\<close>.
\<close>

definition one_token_lib :: "string \<Rightarrow> claims \<Rightarrow> jwt_lib" where
  "one_token_lib secret0 p0 =
     \<lparr> encode = (\<lambda>secret p. ''h.p.s''),
       decode = (\<lambda>secret token.
                   if token \<noteq> ''h.p.s'' then Malformed
                   else if secret \<noteq> secret0 then BadSignature
                   else Payload p0) \<rparr>"

definition admin_row :: user_row where
  "admin_row =
     \<lparr> user_id = 1, username = ''admin'', password_hash = ''hash-of-secret'', role = ''admin'',
       login_attempts = 0, locked_until = None, last_login = None \<rparr>"

definition browser_request :: request where
  "browser_request =
     \<lparr> req_ip = ''203.0.113.7'', req_userAgent = Some ''Mozilla/5.0'',
       req_authorization = Some ''Bearer h.p.s'' \<rparr>"

definition admin_claims :: claims where
  "admin_claims = sign_claims (token_payload admin_row browser_request 1000000)"

definition demo_lib :: jwt_lib where
  "demo_lib = one_token_lib ''k'' admin_claims"

text \<open>An environment in which every step before the password comparison succeeds.\<close>

definition env_at :: "int \<Rightarrow> login_env" where
  "env_at t =
     \<lparr> validation_ok = True, captcha_success = True, select_ok = True, update_ok = True,
       clock_check = t, clock_after = t + 80, clock_db = t div 1000 \<rparr>"

definition wrong_password :: login_body where
  "wrong_password = \<lparr> body_username = ''admin'', body_password = ''guess'' \<rparr>"

definition right_password :: login_body where
  "right_password = \<lparr> body_username = ''admin'', body_password = ''secret'' \<rparr>"

text \<open>A comparison that accepts exactly the password \<open>secret\<close> for the stored hash.\<close>

definition demo_compare :: "string \<Rightarrow> string \<Rightarrow> bool" where
  "demo_compare password hash \<longleftrightarrow> hash = ''hash-of-'' @ password"

definition fresh_state :: login_state where
  "fresh_state = \<lparr> users = [admin_row], compare_calls = 0 \<rparr>"

definition five_wrong :: "(login_env \<times> request \<times> login_body) list" where
  "five_wrong = map (\<lambda>t. (env_at t, browser_request, wrong_password)) [1000, 2000, 3000, 4000, 5000]"

text \<open>
  1001 distinct token strings, revoked one after the other: the token of the examples
  first, then \<open>t\<close>, \<open>tt\<close>, \<open>ttt\<close>, ... up to length 1000.
\<close>

definition many_tokens :: "string list" where
  "many_tokens = ''h.p.s'' # map (\<lambda>n. replicate (Suc n) CHR ''t'') [0..<1000]"

definition revoke_all :: "string list \<Rightarrow> string set \<Rightarrow> string set" where
  "revoke_all tokens tokenBlacklist = fold revokeToken tokens tokenBlacklist"

text \<open>A browser with nothing stored, and the same browser after a successful login.\<close>

definition empty_browser :: browser where
  "empty_browser =
     \<lparr> auth_session = None, auth_fingerprint = None, auth_active = None,
       sessionTimer = None, warningTimer = None, warning_shown = False,
       pending = [], next_timer_id = 1 \<rparr>"

text \<open>
  Handles are positive and below the next one to be given out, for the pending entries and
  for the two fields: what holds in a page whose timeouts were all set by \<open>setTimeout\<close>.
\<close>

definition timers_wf :: "browser \<Rightarrow> bool" where
  "timers_wf b \<longleftrightarrow>
     0 < next_timer_id b
     \<and> list_all (\<lambda>t. 0 < timer_id t \<and> timer_id t < next_timer_id b) (pending b)
     \<and> (case sessionTimer b of None \<Rightarrow> True | Some h \<Rightarrow> 0 < h \<and> h < next_timer_id b)
     \<and> (case warningTimer b of None \<Rightarrow> True | Some h \<Rightarrow> 0 < h \<and> h < next_timer_id b)"

text \<open>
  The spec's condition of claim C5, in its own words: a bearer token is present when the
  header reads \<open>Bearer\<close>, one space, and a non-empty token.
\<close>

definition spec_bearer_token_present :: "string option \<Rightarrow> bool" where
  "spec_bearer_token_present authHeader \<longleftrightarrow>
     (case authHeader of
        None \<Rightarrow> False
      | Some h \<Rightarrow> take 7 h = ''Bearer '' \<and> drop 7 h \<noteq> [])"

definition logged_in_browser :: browser where
  "logged_in_browser =
     handleSuccessfulLogin ''fp'' 1000080 1000080 1000085 ''csrf''
       (LoginSuccessful ''h.p.s'' 1 ''admin'' ''admin'') empty_browser"

definition mirror_at_login :: session_data where
  "mirror_at_login =
     \<lparr> sd_token = ''h.p.s'', sd_username = ''admin'', sd_role = ''admin'', loginTime = 1000080,
       expiresAt = 2800080, csrfToken = ''csrf'' \<rparr>"

section \<open>Properties\<close>

subsection \<open>Lockout controller\<close>

lemma select_user_map:
  assumes "\<And>r. username (f r) = username r"
  shows "select_user (map f db) name = map_option f (select_user db name)"
  using assms by (induction db) (simp_all add: select_user_def)

lemma select_update_failed:
  "select_user db name = Some v \<Longrightarrow>
   select_user (update_failed db n l (user_id v)) name
     = Some (v\<lparr> login_attempts := n, locked_until := l \<rparr>)"
  unfolding update_failed_def by (subst select_user_map) simp_all

lemma select_update_success:
  "select_user db name = Some v \<Longrightarrow>
   select_user (update_success db stamp (user_id v)) name
     = Some (v\<lparr> login_attempts := 0, locked_until := None, last_login := Some stamp \<rparr>)"
  unfolding update_success_def by (subst select_user_map) simp_all

lemma login_failed_step:
  assumes "select_user (users st) name = Some v"
    and "admitted env" and "body_username body = name"
    and "\<not> compare (body_password body) (password_hash v)"
    and "\<not> isLocked (locked_until v) (clock_check env)"
  shows "login L (server_config s) compare env req body st =
           (InvalidCredentials,
            st\<lparr> compare_calls := Suc (compare_calls st),
                users := update_failed (users st) (login_attempts v + 1)
                           (if login_attempts v + 1 \<ge> 5
                            then Some (clock_after env + 900000) else None) (user_id v) \<rparr>)"
  using assms by (simp add: login_def admitted_def server_config_def Let_def)

lemma login_locked_step:
  assumes "select_user (users st) name = Some v"
    and "validation_ok env" "captcha_success env" "select_ok env" and "body_username body = name"
    and "isLocked (locked_until v) (clock_check env)"
  shows "login L cfg compare env req body st = (AccountLocked, st)"
  using assms by (simp add: login_def)

lemma logins_append:
  "logins L cfg compare (xs @ ys) st =
     (let (r1, s1) = logins L cfg compare xs st;
          (r2, s2) = logins L cfg compare ys s1
      in (r1 @ r2, s2))"
  by (induction xs arbitrary: st) (auto split: prod.splits)

lemma failed_run:
  assumes "select_user (users st) name = Some v"
    and "\<forall>a \<in> set as. failed_attempt compare name v a"
    and "as \<noteq> [] \<longrightarrow> \<not> isLocked (locked_until v) (clock_check (fst (hd as)))"
    and "login_attempts v + int (length as) < 5"
  shows "\<exists>st'. logins L (server_config s) compare as st
            = (replicate (length as) InvalidCredentials, st')
          \<and> compare_calls st' = compare_calls st + length as
          \<and> select_user (users st') name
              = Some (v\<lparr> login_attempts := login_attempts v + int (length as),
                         locked_until := (if as = [] then locked_until v else None) \<rparr>)"
  using assms
proof (induction as arbitrary: st v)
  case Nil
  then show ?case by simp
next
  case (Cons a as)
  obtain env req body where a: "a = (env, req, body)" by (cases a) auto
  from Cons.prems a have fa: "admitted env" "body_username body = name"
    "\<not> compare (body_password body) (password_hash v)"
    "\<not> isLocked (locked_until v) (clock_check env)"
    by (auto simp: failed_attempt_def)
  let ?v1 = "v\<lparr> login_attempts := login_attempts v + 1, locked_until := None \<rparr>"
  let ?st1 = "st\<lparr> compare_calls := Suc (compare_calls st),
                users := update_failed (users st) (login_attempts v + 1) None (user_id v) \<rparr>"
  from Cons.prems(4) have small: "\<not> login_attempts v + 1 \<ge> 5" by simp
  have step: "login L (server_config s) compare env req body st = (InvalidCredentials, ?st1)"
    using login_failed_step [of st name v env body compare L s req] Cons.prems(1) fa small by simp
  have sel1: "select_user (users ?st1) name = Some ?v1"
    using select_update_failed [OF Cons.prems(1)] by simp
  have all1: "\<forall>a \<in> set as. failed_attempt compare name ?v1 a"
    using Cons.prems(2) by (auto simp: failed_attempt_def)
  have nl: "as \<noteq> [] \<longrightarrow> \<not> isLocked (locked_until ?v1) (clock_check (fst (hd as)))"
    by (simp add: isLocked_def)
  have bound: "login_attempts ?v1 + int (length as) < 5" using Cons.prems(4) by simp
  from Cons.IH [OF sel1 all1 nl bound]
  obtain st' where rest: "logins L (server_config s) compare as ?st1
            = (replicate (length as) InvalidCredentials, st')"
     "compare_calls st' = compare_calls ?st1 + length as"
     "select_user (users st') name
              = Some (?v1\<lparr> login_attempts := login_attempts ?v1 + int (length as),
                         locked_until := (if as = [] then locked_until ?v1 else None) \<rparr>)"
    by blast
  show ?case
    using rest step a by (auto simp: )
qed


lemma failed_prefix:
  assumes sel: "select_user (users st) name = Some u"
    and zero: "login_attempts u = 0"
    and unlocked: "\<not> isLocked (locked_until u) (clock_check (fst (hd attempts)))"
    and failed: "\<forall>a \<in> set attempts. failed_attempt compare name u a"
    and k: "1 \<le> k" "k < 5" "k \<le> length attempts"
  shows "\<exists>stk. logins L (server_config s) compare (take k attempts) st
                 = (replicate k InvalidCredentials, stk)
          \<and> compare_calls stk = compare_calls st + k
          \<and> select_user (users stk) name
              = Some (u\<lparr> login_attempts := int k, locked_until := None \<rparr>)"
proof -
  let ?as = "take k attempts"
  have ne: "?as \<noteq> []" using k by auto
  have len: "length ?as = k" using k by simp
  have hd: "hd ?as = hd attempts" using k by simp
  have all: "\<forall>a \<in> set ?as. failed_attempt compare name u a"
    using failed by (meson in_set_takeD)
  have nl: "?as \<noteq> [] \<longrightarrow> \<not> isLocked (locked_until u) (clock_check (fst (hd ?as)))"
    using unlocked hd by simp
  have bound: "login_attempts u + int (length ?as) < 5" using zero len k by simp
  from failed_run [OF sel all nl bound, of L s] show ?thesis
    using ne len zero by simp
qed

text \<open>
  Claim C2 (lockout threshold). A user starts unlocked with a failed-attempt counter of 0.
  Five consecutive requests that reach the password comparison and fail it are each
  answered 401; after the first four the counter is 1 to 4 and no lock is set; the fifth
  sets the counter to 5 and the lock expiry to the clock reading of that request plus 15
  minutes. A sixth request made before that expiry is answered 423 and leaves the state as
  it is, so the number of password comparisons stays at five.
\<close>

theorem lockout_threshold:
  assumes sel: "select_user (users st) name = Some u"
    and zero: "login_attempts u = 0"
    and unlocked: "\<not> isLocked (locked_until u) (clock_check (fst (hd attempts)))"
    and five: "length attempts = 5"
    and failed: "\<forall>a \<in> set attempts. failed_attempt compare name u a"
    and sixth: "validation_ok env6" "captcha_success env6" "select_ok env6"
               "body_username body6 = name"
    and while_locked: "clock_check env6 < clock_after (fst (last attempts)) + 15 * 60 * 1000"
  shows "\<exists>st5.
           logins L (server_config s) compare attempts st = (replicate 5 InvalidCredentials, st5)
         \<and> (\<forall>k \<in> {1..<5}.
               select_user (users (snd (logins L (server_config s) compare (take k attempts) st))) name
                 = Some (u\<lparr> login_attempts := int k, locked_until := None \<rparr>))
         \<and> select_user (users st5) name
             = Some (u\<lparr> login_attempts := 5,
                        locked_until := Some (clock_after (fst (last attempts)) + 15 * 60 * 1000) \<rparr>)
         \<and> compare_calls st5 = compare_calls st + 5
         \<and> login L (server_config s) compare env6 req6 body6 st5 = (AccountLocked, st5)
         \<and> status (fst (login L (server_config s) compare env6 req6 body6 st5)) = 423"
proof -
  have pre: "\<And>k. 1 \<le> k \<Longrightarrow> k < 5 \<Longrightarrow>
      \<exists>stk. logins L (server_config s) compare (take k attempts) st
                 = (replicate k InvalidCredentials, stk)
          \<and> compare_calls stk = compare_calls st + k
          \<and> select_user (users stk) name
              = Some (u\<lparr> login_attempts := int k, locked_until := None \<rparr>)"
    using failed_prefix [OF sel zero unlocked failed] five by simp
  from pre [of 4] obtain st4 where st4:
    "logins L (server_config s) compare (take 4 attempts) st = (replicate 4 InvalidCredentials, st4)"
    "compare_calls st4 = compare_calls st + 4"
    "select_user (users st4) name = Some (u\<lparr> login_attempts := 4, locked_until := None \<rparr>)"
    by auto
  let ?u4 = "u\<lparr> login_attempts := 4, locked_until := None \<rparr>"
  obtain env5 req5 body5 where a5: "last attempts = (env5, req5, body5)"
    by (cases "last attempts") auto
  have ne: "attempts \<noteq> []" using five by auto
  have split: "attempts = take 4 attempts @ [last attempts]"
  proof -
    have "butlast attempts = take 4 attempts" using five by (simp add: butlast_conv_take)
    then show ?thesis using ne append_butlast_last_id [of attempts] by simp
  qed
  have "failed_attempt compare name u (last attempts)" using failed ne by simp
  then have fa5: "admitted env5" "body_username body5 = name"
    "\<not> compare (body_password body5) (password_hash ?u4)"
    using a5 by (auto simp: failed_attempt_def)
  have nl5: "\<not> isLocked (locked_until ?u4) (clock_check env5)" by (simp add: isLocked_def)
  let ?st5 = "st4\<lparr> compare_calls := Suc (compare_calls st4),
                users := update_failed (users st4) 5 (Some (clock_after env5 + 900000)) (user_id ?u4) \<rparr>"
  have step5: "login L (server_config s) compare env5 req5 body5 st4 = (InvalidCredentials, ?st5)"
    using login_failed_step [of st4 name ?u4 env5 body5 compare L s req5] st4(3) fa5 nl5 by simp
  have sel5: "select_user (users ?st5) name
      = Some (u\<lparr> login_attempts := 5, locked_until := Some (clock_after env5 + 900000) \<rparr>)"
    using select_update_failed [OF st4(3), of 5 "Some (clock_after env5 + 900000)"] by simp
  have run5: "logins L (server_config s) compare attempts st = (replicate 5 InvalidCredentials, ?st5)"
  proof -
    have "logins L (server_config s) compare (take 4 attempts @ [last attempts]) st
            = (replicate 4 InvalidCredentials @ [InvalidCredentials], ?st5)"
      unfolding logins_append using st4(1) step5 a5 by simp
    moreover have "replicate 4 InvalidCredentials @ [InvalidCredentials] = replicate 5 InvalidCredentials"
      by (simp add: numeral_eq_Suc)
    ultimately show ?thesis using split by simp
  qed
  have locked6: "isLocked (locked_until (u\<lparr> login_attempts := 5,
        locked_until := Some (clock_after env5 + 900000) \<rparr>)) (clock_check env6)"
    using while_locked a5 by (simp add: isLocked_def)
  have six: "login L (server_config s) compare env6 req6 body6 ?st5 = (AccountLocked, ?st5)"
    using login_locked_step [OF sel5 sixth(1-3) sixth(4) locked6] by simp
  have mid: "\<forall>k \<in> {1..<5}.
               select_user (users (snd (logins L (server_config s) compare (take k attempts) st))) name
                 = Some (u\<lparr> login_attempts := int k, locked_until := None \<rparr>)"
  proof
    fix k assume "k \<in> {1..<5::nat}"
    then have "1 \<le> k" "k < 5" by auto
    from pre [OF this] show "select_user (users (snd (logins L (server_config s) compare (take k attempts) st))) name
                 = Some (u\<lparr> login_attempts := int k, locked_until := None \<rparr>)"
      by auto
  qed
  show ?thesis
    apply (rule exI [of _ ?st5])
    using run5 mid sel5 st4(2) six a5 by simp
qed


theorem lockout_threshold_witness:
  "select_user (users fresh_state) ''admin'' = Some admin_row
   \<and> login_attempts admin_row = 0
   \<and> \<not> isLocked (locked_until admin_row) (clock_check (fst (hd five_wrong)))
   \<and> length five_wrong = 5
   \<and> list_all (failed_attempt demo_compare ''admin'' admin_row) five_wrong
   \<and> admitted (env_at 6000)
   \<and> clock_check (env_at 6000) < clock_after (fst (last five_wrong)) + 15 * 60 * 1000
   \<and> (\<exists>st5.
         logins demo_lib (server_config ''k'') demo_compare five_wrong fresh_state
           = (replicate 5 InvalidCredentials, st5)
       \<and> select_user (users st5) ''admin''
           = Some (admin_row\<lparr> login_attempts := 5, locked_until := Some 905080 \<rparr>)
       \<and> compare_calls st5 = 5
       \<and> login demo_lib (server_config ''k'') demo_compare (env_at 6000) browser_request
            right_password st5 = (AccountLocked, st5))"
proof -
  have h1: "select_user (users fresh_state) ''admin'' = Some admin_row"
    by (simp add: fresh_state_def select_user_def admin_row_def)
  have h2: "login_attempts admin_row = 0" by (simp add: admin_row_def)
  have h3: "\<not> isLocked (locked_until admin_row) (clock_check (fst (hd five_wrong)))"
    by (simp add: admin_row_def isLocked_def)
  have h4: "length five_wrong = 5" by (simp add: five_wrong_def)
  have h5: "\<forall>a \<in> set five_wrong. failed_attempt demo_compare ''admin'' admin_row a"
    by (simp add: five_wrong_def failed_attempt_def admitted_def env_at_def wrong_password_def
        demo_compare_def admin_row_def)
  have h6: "validation_ok (env_at 6000)" "captcha_success (env_at 6000)" "select_ok (env_at 6000)"
    "body_username right_password = ''admin''"
    by (simp_all add: env_at_def right_password_def)
  have h7: "clock_check (env_at 6000) < clock_after (fst (last five_wrong)) + 15 * 60 * 1000"
    by (simp add: five_wrong_def env_at_def)
  have l: "clock_after (fst (last five_wrong)) + 15 * 60 * 1000 = 905080"
    by (simp add: five_wrong_def env_at_def)
  have c0: "compare_calls fresh_state = 0" by (simp add: fresh_state_def)
  have adm: "admitted (env_at 6000)" by (simp add: admitted_def env_at_def)
  from lockout_threshold [OF h1 h2 h3 h4 h5 h6 h7, of demo_lib "''k''" browser_request]
  show ?thesis using h1 h2 h3 h4 h5 h7 adm unfolding l c0 list_all_iff by auto
qed

text \<open>
  Claim C6 (lock-state evaluation). For a request that reaches the lock check (valid
  input, captcha solved, the user's row found), the answer is 423 exactly when the stored
  lock expiry is set and strictly later than the clock of the request, and then nothing is
  written. When the expiry is unset or not later than the clock, the password is compared
  (one more comparison) and the answer is the one of the comparison. The decision reads
  the stored row and the clock only.
\<close>

theorem lock_state_evaluation:
  assumes "validation_ok env" and "captcha_success env" and "select_ok env"
    and "select_user (users st) (body_username body) = Some u"
  shows "(status (fst (login L cfg compare env req body st)) = 423
            \<longleftrightarrow> (\<exists>t. locked_until u = Some t \<and> clock_check env < t))
       \<and> (status (fst (login L cfg compare env req body st)) = 423
            \<longrightarrow> snd (login L cfg compare env req body st) = st)
       \<and> ((\<forall>t. locked_until u = Some t \<longrightarrow> t \<le> clock_check env)
            \<longrightarrow> compare_calls (snd (login L cfg compare env req body st)) = Suc (compare_calls st)
              \<and> (if compare (body_password body) (password_hash u)
                 then fst (login L cfg compare env req body st)
                        = LoginSuccessful (generateToken L cfg u req (clock_after env))
                            (user_id u) (username u) (role u)
                 else fst (login L cfg compare env req body st) = InvalidCredentials))"
  using assms
  by (cases "locked_until u") (auto simp: login_def isLocked_def Let_def)

theorem lock_state_evaluation_witness:
  "validation_ok (env_at 7000) \<and> captcha_success (env_at 7000) \<and> select_ok (env_at 7000)
   \<and> select_user [admin_row\<lparr> locked_until := Some 7000 \<rparr>] (body_username wrong_password)
       = Some (admin_row\<lparr> locked_until := Some 7000 \<rparr>)
   \<and> status (fst (login demo_lib (server_config ''k'') demo_compare (env_at 7000) browser_request
        wrong_password \<lparr> users = [admin_row\<lparr> locked_until := Some 7000 \<rparr>], compare_calls = 0 \<rparr>)) \<noteq> 423
   \<and> compare_calls (snd (login demo_lib (server_config ''k'') demo_compare (env_at 7000)
        browser_request wrong_password
        \<lparr> users = [admin_row\<lparr> locked_until := Some 7000 \<rparr>], compare_calls = 0 \<rparr>)) = 1"
proof -
  let ?u = "admin_row\<lparr> locked_until := Some 7000 \<rparr>"
  let ?st = "\<lparr> users = [?u], compare_calls = 0 \<rparr>"
  have h: "validation_ok (env_at 7000)" "captcha_success (env_at 7000)" "select_ok (env_at 7000)"
    by (simp_all add: env_at_def)
  have s: "select_user (users ?st) (body_username wrong_password) = Some ?u"
    by (simp add: select_user_def admin_row_def wrong_password_def)
  have c: "clock_check (env_at 7000) = 7000" by (simp add: env_at_def)
  from lock_state_evaluation [OF h s, of demo_lib "server_config ''k''" demo_compare browser_request]
  show ?thesis using h s unfolding c by simp
qed

text \<open>
  Claim C10 (an expired lock keeps the counter). For a user whose counter is 5 and whose
  lock expiry has passed, the request is not answered 423; a failed comparison sets the
  counter to 6 and locks the account again until 15 minutes after the clock reading of
  that request; the counter is 0 afterwards exactly when the comparison succeeded.
\<close>

theorem expired_lock_relocks:
  assumes "select_user (users st) name = Some v"
    and "login_attempts v = 5"
    and "locked_until v = Some t" and "t \<le> clock_check env"
    and "admitted env" and "body_username body = name"
  shows "status (fst (login L (server_config s) compare env req body st)) \<noteq> 423
       \<and> (\<not> compare (body_password body) (password_hash v) \<longrightarrow>
            fst (login L (server_config s) compare env req body st) = InvalidCredentials
          \<and> select_user (users (snd (login L (server_config s) compare env req body st))) name
              = Some (v\<lparr> login_attempts := 6,
                         locked_until := Some (clock_after env + 15 * 60 * 1000) \<rparr>)
          \<and> isLocked (Some (clock_after env + 15 * 60 * 1000)) (clock_after env))
       \<and> (compare (body_password body) (password_hash v) \<longrightarrow>
            select_user (users (snd (login L (server_config s) compare env req body st))) name
              = Some (v\<lparr> login_attempts := 0, locked_until := None,
                         last_login := Some (clock_db env) \<rparr>))
       \<and> ((\<exists>v'. select_user (users (snd (login L (server_config s) compare env req body st))) name
                  = Some v' \<and> login_attempts v' = 0)
            \<longleftrightarrow> compare (body_password body) (password_hash v))"
proof (cases "compare (body_password body) (password_hash v)")
  case True
  then show ?thesis
    using assms select_update_success [OF assms(1), of "clock_db env"]
    by (simp add: login_def admitted_def isLocked_def Let_def)
next
  case False
  have nl: "\<not> isLocked (locked_until v) (clock_check env)"
    using assms(3,4) by (simp add: isLocked_def)
  from login_failed_step [of st name v env body compare L s req] assms False nl
  have step: "login L (server_config s) compare env req body st =
           (InvalidCredentials,
            st\<lparr> compare_calls := Suc (compare_calls st),
                users := update_failed (users st) 6 (Some (clock_after env + 900000)) (user_id v) \<rparr>)"
    by simp
  show ?thesis
    using False select_update_failed [OF assms(1), of 6 "Some (clock_after env + 900000)"]
    unfolding step by (simp add: isLocked_def)
qed

theorem expired_lock_relocks_witness:
  "select_user [admin_row\<lparr> login_attempts := 5, locked_until := Some 7000 \<rparr>] ''admin''
       = Some (admin_row\<lparr> login_attempts := 5, locked_until := Some 7000 \<rparr>)
   \<and> (7000::int) \<le> clock_check (env_at 7000) \<and> admitted (env_at 7000)
   \<and> \<not> demo_compare (body_password wrong_password) (password_hash admin_row)
   \<and> select_user (users (snd (login demo_lib (server_config ''k'') demo_compare (env_at 7000)
        browser_request wrong_password
        \<lparr> users = [admin_row\<lparr> login_attempts := 5, locked_until := Some 7000 \<rparr>],
          compare_calls = 5 \<rparr>))) ''admin''
       = Some (admin_row\<lparr> login_attempts := 6, locked_until := Some 907080 \<rparr>)"
proof -
  let ?v = "admin_row\<lparr> login_attempts := 5, locked_until := Some 7000 \<rparr>"
  let ?st = "\<lparr> users = [?v], compare_calls = 5 \<rparr>"
  have h1: "select_user (users ?st) ''admin'' = Some ?v"
    by (simp add: select_user_def admin_row_def)
  have h2: "login_attempts ?v = 5" by simp
  have h3: "locked_until ?v = Some 7000" by simp
  have h4: "(7000::int) \<le> clock_check (env_at 7000)" by (simp add: env_at_def)
  have h5: "admitted (env_at 7000)" by (simp add: admitted_def env_at_def)
  have h6: "body_username wrong_password = ''admin''" by (simp add: wrong_password_def)
  have w: "\<not> demo_compare (body_password wrong_password) (password_hash ?v)"
    by (simp add: demo_compare_def wrong_password_def admin_row_def)
  have w': "\<not> demo_compare (body_password wrong_password) (password_hash admin_row)"
    by (simp add: demo_compare_def wrong_password_def admin_row_def)
  have c: "clock_after (env_at 7000) + 15 * 60 * 1000 = 907080" by (simp add: env_at_def)
  from expired_lock_relocks [OF h1 h2 h3 h4 h5 h6, of demo_lib "''k''" demo_compare browser_request]
  show ?thesis using h1 h4 h5 w w' unfolding c by simp
qed

subsection \<open>Token service and revocation registry\<close>

lemma div_1000_shift: "(t + k * 1000) div 1000 = t div 1000 + (k::int)"
  by simp

lemma jwt_verify_issued:
  assumes "reads_back L (jwtSecret cfg) (sign_claims (token_payload user req t0))"
  shows "jwt_verify L (jwtSecret cfg) t (generateToken L cfg user req t0)
           = (if t0 div 1000 + 30 * 60 \<le> t div 1000 then Inl JwtExpired
              else Inr (sign_claims (token_payload user req t0)))"
  using assms
  by (simp add: jwt_verify_def generateToken_def jwt_sign_def reads_back_def sign_claims_def
      token_payload_def token_lifetime_def)

lemma verifyToken_issued:
  assumes "reads_back L (jwtSecret cfg) (sign_claims (token_payload user req t0))"
  shows "fst (verifyToken L cfg strict bl t (generateToken L cfg user req t0) req')
           = (if t0 div 1000 + 30 * 60 \<le> t div 1000 then Inl (ValidationFailed (Library JwtExpired))
              else if generateToken L cfg user req t0 \<in> bl then Inl (ValidationFailed Revoked)
              else Inr (sign_claims (token_payload user req t0)))"
  by (simp add: verifyToken_def jwt_verify_issued [OF assms])

text \<open>
  Claim C3 (token expiry boundary). Provided the library reads back the token it made, the
  \<open>exp\<close> claim of an issued token is its \<open>iat\<close> plus 1800 seconds, with \<open>iat\<close> the second
  of issuance; verification returns these same claims, so nothing extends the expiry on the
  server. A token that is not revoked verifies one second before issuance plus 30 minutes;
  one second after it, and at every clock from \<open>exp\<close> on, verification fails as expired
  whatever the revocation registry holds.
\<close>

theorem token_expiry_boundary:
  assumes "reads_back L (jwtSecret cfg) (sign_claims (token_payload user req t0))"
  shows "c_exp (sign_claims (token_payload user req t0))
           = Some (c_iat (sign_claims (token_payload user req t0)) + 30 * 60)
       \<and> c_iat (sign_claims (token_payload user req t0)) = t0 div 1000
       \<and> (generateToken L cfg user req t0 \<notin> bl \<longrightarrow>
            fst (verifyToken L cfg strict bl (t0 + 30 * 60 * 1000 - 1000)
                   (generateToken L cfg user req t0) req')
              = Inr (sign_claims (token_payload user req t0)))
       \<and> fst (verifyToken L cfg strict bl' (t0 + 30 * 60 * 1000 + 1000)
                (generateToken L cfg user req t0) req')
           = Inl (ValidationFailed (Library JwtExpired))
       \<and> (\<forall>t. t0 div 1000 + 30 * 60 \<le> t div 1000 \<longrightarrow>
               fst (verifyToken L cfg strict bl' t (generateToken L cfg user req t0) req')
                 = Inl (ValidationFailed (Library JwtExpired)))
       \<and> (\<forall>t. t div 1000 < t0 div 1000 + 30 * 60 \<and> generateToken L cfg user req t0 \<notin> bl \<longrightarrow>
               fst (verifyToken L cfg strict bl t (generateToken L cfg user req t0) req')
                 = Inr (sign_claims (token_payload user req t0)))"
proof -
  have a: "(t0 + 30 * 60 * 1000 - 1000) div 1000 = t0 div 1000 + 1799"
    using div_1000_shift [of t0 1799] by simp
  have b: "(t0 + 30 * 60 * 1000 + 1000) div 1000 = t0 div 1000 + 1801"
    using div_1000_shift [of t0 1801] by simp
  have c: "c_exp (sign_claims (token_payload user req t0))
           = Some (c_iat (sign_claims (token_payload user req t0)) + 30 * 60)"
       "c_iat (sign_claims (token_payload user req t0)) = t0 div 1000"
    by (simp_all add: sign_claims_def token_payload_def token_lifetime_def)
  show ?thesis
    unfolding verifyToken_issued [OF assms] a b using c by simp
qed

lemma demo_reads_back:
  "reads_back demo_lib (jwtSecret (server_config ''k''))
     (sign_claims (token_payload admin_row browser_request 1000000))"
  by (simp add: reads_back_def demo_lib_def one_token_lib_def server_config_def admin_claims_def)

lemma demo_token: "generateToken demo_lib (server_config ''k'') admin_row browser_request 1000000 = ''h.p.s''"
  by (simp add: generateToken_def jwt_sign_def demo_lib_def one_token_lib_def)

theorem token_expiry_boundary_witness:
  "reads_back demo_lib (jwtSecret (server_config ''k''))
     (sign_claims (token_payload admin_row browser_request 1000000))
   \<and> c_exp admin_claims = Some 2800
   \<and> fst (verifyToken demo_lib (server_config ''k'') False {} 2799000 ''h.p.s'' browser_request)
       = Inr admin_claims
   \<and> fst (verifyToken demo_lib (server_config ''k'') False {} 2801000 ''h.p.s'' browser_request)
       = Inl (ValidationFailed (Library JwtExpired))"
proof -
  have e: "''h.p.s'' \<notin> ({} :: string set)" by simp
  have i: "c_iat (sign_claims (token_payload admin_row browser_request 1000000)) = 1000"
    by (simp add: sign_claims_def token_payload_def)
  from token_expiry_boundary [OF demo_reads_back, of "{}" False browser_request "{}"]
  show ?thesis
    using demo_reads_back e unfolding demo_token i admin_claims_def by simp
qed

text \<open>
  Claim C7 (warn, do not block). Two requests that differ in the client IP only get the
  same result from \<open>verifyToken\<close>, and the same answer from the \<open>authenticate\<close>
  interceptor; what the IP can change is the one warning written to the console.
\<close>

theorem ip_mismatch_never_rejects:
  "fst (verifyToken L cfg strict bl now token (req\<lparr> req_ip := ip1 \<rparr>))
     = fst (verifyToken L cfg strict bl now token (req\<lparr> req_ip := ip2 \<rparr>))
   \<and> authenticate L cfg strict dev bl now (req\<lparr> req_ip := ip1 \<rparr>)
     = authenticate L cfg strict dev bl now (req\<lparr> req_ip := ip2 \<rparr>)
   \<and> length (snd (verifyToken L cfg strict bl now token req)) \<le> 1"
  by (auto simp: verifyToken_def authenticate_def split: sum.splits option.splits)

text \<open>
  Claim C8 (idempotent revocation). Revoking a token that is already in the registry
  returns the registry unchanged (the operation has no failing branch), verification of
  that token gives the same result as before, and that result is a failure: as revoked
  when the library accepts the token, with the library's error otherwise.
\<close>

theorem idempotent_revocation:
  assumes "token \<in> bl"
  shows "revokeToken token bl = bl
       \<and> verifyToken L cfg strict (revokeToken token bl) now token req
           = verifyToken L cfg strict bl now token req
       \<and> fst (verifyToken L cfg strict (revokeToken token bl) now token req)
           = Inl (ValidationFailed
                    (case jwt_verify L (jwtSecret cfg) now token of
                       Inl e \<Rightarrow> Library e
                     | Inr decoded \<Rightarrow> Revoked))"
  using assms
  by (auto simp: revokeToken_def verifyToken_def insert_absorb split: sum.splits)

theorem idempotent_revocation_witness:
  "''h.p.s'' \<in> revokeToken ''h.p.s'' {}
   \<and> revokeToken ''h.p.s'' (revokeToken ''h.p.s'' {}) = revokeToken ''h.p.s'' {}
   \<and> fst (verifyToken demo_lib (server_config ''k'') False
            (revokeToken ''h.p.s'' (revokeToken ''h.p.s'' {})) 1060000 ''h.p.s'' browser_request)
       = Inl (ValidationFailed Revoked)"
proof -
  have h: "''h.p.s'' \<in> revokeToken ''h.p.s'' {}" by (simp add: revokeToken_def)
  have v: "jwt_verify demo_lib (jwtSecret (server_config ''k'')) 1060000 ''h.p.s'' = Inr admin_claims"
    by (simp add: jwt_verify_def demo_lib_def one_token_lib_def server_config_def admin_claims_def
        sign_claims_def token_payload_def token_lifetime_def)
  from idempotent_revocation [OF h, of demo_lib "server_config ''k''" False 1060000 browser_request]
  show ?thesis using h unfolding v sum.case by blast
qed

lemma split_on_no_sep: "sep \<notin> set xs \<Longrightarrow> split_on sep xs = [xs]"
  by (induction xs) auto

lemma split_on_first: "sep \<notin> set xs \<Longrightarrow> split_on sep (xs @ sep # ys) = xs # split_on sep ys"
  by (induction xs) auto

lemma extract_token_one_field: "CHR '' '' \<notin> set h \<Longrightarrow> extract_token (Some h) = None"
  by (simp add: extract_token_def split_on_no_sep)

lemma extract_token_empty_second:
  "CHR '' '' \<notin> set scheme \<Longrightarrow> extract_token (Some (scheme @ '' '')) = None"
  using split_on_first [of "CHR '' ''" scheme "[]"] by (simp add: extract_token_def)

lemma extract_token_second:
  "CHR '' '' \<notin> set scheme \<Longrightarrow> CHR '' '' \<notin> set token \<Longrightarrow> token \<noteq> [] \<Longrightarrow>
   extract_token (Some (scheme @ '' '' @ token)) = Some token"
  using split_on_first [of "CHR '' ''" scheme token]
  by (simp add: extract_token_def split_on_no_sep)

lemma verifyToken_fails_iff:
  "isl (fst (verifyToken L cfg strict bl now token req))
     \<longleftrightarrow> isl (jwt_verify L (jwtSecret cfg) now token) \<or> token \<in> bl"
  by (auto simp: verifyToken_def split: sum.splits)

lemma jwt_verify_fails_iff:
  "isl (jwt_verify L secret now token)
     \<longleftrightarrow> decode L secret token = Malformed
       \<or> decode L secret token = BadSignature
       \<or> (\<exists>p. decode L secret token = Payload p
              \<and> ((\<exists>e. c_exp p = Some e \<and> e \<le> now div 1000)
                 \<or> c_aud p \<noteq> Some ''blog-users''
                 \<or> c_iss p \<noteq> Some ''blog-system''))"
  by (cases "decode L secret token") (auto simp: jwt_verify_def split: option.splits)

lemma authenticate_on_failure:
  assumes "extract_token (req_authorization req) = Some token"
    and "isl (fst (verifyToken L cfg strict bl now token req))"
  shows "\<exists>d. authenticate L cfg strict dev bl now req = Respond 403 ''INVALID_TOKEN'' d"
  using assms by (cases "fst (verifyToken L cfg strict bl now token req)") (simp_all add: authenticate_def)

text \<open>
  Claim C5 as stated fails: a header with another scheme carries no bearer token, yet its
  second field is taken as the token. \<open>Basic dXNlcjpwYXNz\<close> is answered 403
  \<open>INVALID_TOKEN\<close>, not 401 \<open>NO_TOKEN\<close>, and \<open>Basic\<close> followed by a valid token is
  admitted.
\<close>

theorem authentication_error_taxonomy_counterexample:
  "spec_bearer_token_present (Some ''Bearer h.p.s'')
   \<and> \<not> spec_bearer_token_present (Some ''Basic dXNlcjpwYXNz'')
   \<and> authenticate demo_lib (server_config ''k'') False False {} 1060000
         (browser_request\<lparr> req_authorization := Some ''Basic dXNlcjpwYXNz'' \<rparr>)
       = Respond 403 ''INVALID_TOKEN'' None
   \<and> \<not> spec_bearer_token_present (Some ''Basic h.p.s'')
   \<and> authenticate demo_lib (server_config ''k'') False False {} 1060000
         (browser_request\<lparr> req_authorization := Some ''Basic h.p.s'' \<rparr>)
       = Next admin_claims ''h.p.s''"
proof -
  have a: "extract_token (Some ''Basic dXNlcjpwYXNz'') = Some ''dXNlcjpwYXNz''"
    by (simp add: extract_token_def)
  have b: "extract_token (Some ''Basic h.p.s'') = Some ''h.p.s''"
    by (simp add: extract_token_def)
  have c: "iso_string_ok (c_exp admin_claims)"
    by (simp add: iso_string_ok_def max_date_ms_def admin_claims_def sign_claims_def
        token_payload_def token_lifetime_def)
  have v: "jwt_verify demo_lib (jwtSecret (server_config ''k'')) 1060000 ''h.p.s'' = Inr admin_claims"
    by (simp add: jwt_verify_def demo_lib_def one_token_lib_def server_config_def admin_claims_def
        sign_claims_def token_payload_def token_lifetime_def)
  have w: "jwt_verify demo_lib (jwtSecret (server_config ''k'')) 1060000 ''dXNlcjpwYXNz''
             = Inl JwtMalformed"
    by (simp add: jwt_verify_def demo_lib_def one_token_lib_def)
  show ?thesis
    using c by (simp add: spec_bearer_token_present_def authenticate_def verifyToken_def a b v w)
qed

text \<open>
  Claim C5 (authentication error taxonomy), as amended. The token is the second field of
  the header after splitting at spaces, whatever the first field (the scheme word) is. The
  interceptor answers 401 with code \<open>NO_TOKEN\<close> exactly when there is no such field or it
  is empty: no header, a header of one field such as \<open>Bearer\<close>, or \<open>Bearer\<close> followed by
  one space. When a token is
  there and verification fails, the answer is 403 with code \<open>INVALID_TOKEN\<close>, for every
  cause: a malformed token, a bad signature, expiry, a wrong audience, a wrong issuer, or
  revocation. The interceptor gives no other answer.
\<close>

theorem authentication_error_taxonomy:
  "(extract_token (req_authorization req) = None \<longrightarrow>
      authenticate L cfg strict dev bl now req = Respond 401 ''NO_TOKEN'' None)
   \<and> (req_authorization req = None \<longrightarrow>
      authenticate L cfg strict dev bl now req = Respond 401 ''NO_TOKEN'' None)
   \<and> (\<forall>h. req_authorization req = Some h \<and> CHR '' '' \<notin> set h \<longrightarrow>
      authenticate L cfg strict dev bl now req = Respond 401 ''NO_TOKEN'' None)
   \<and> (\<forall>scheme. req_authorization req = Some (scheme @ '' '') \<and> CHR '' '' \<notin> set scheme \<longrightarrow>
      authenticate L cfg strict dev bl now req = Respond 401 ''NO_TOKEN'' None)
   \<and> (\<forall>scheme token. req_authorization req = Some (scheme @ '' '' @ token)
         \<and> CHR '' '' \<notin> set scheme \<and> CHR '' '' \<notin> set token \<and> token \<noteq> []
         \<longrightarrow> extract_token (req_authorization req) = Some token)
   \<and> (\<forall>token. extract_token (req_authorization req) = Some token
         \<and> (decode L (jwtSecret cfg) token = Malformed
            \<or> decode L (jwtSecret cfg) token = BadSignature
            \<or> (\<exists>p. decode L (jwtSecret cfg) token = Payload p
                   \<and> ((\<exists>e. c_exp p = Some e \<and> e \<le> now div 1000)
                      \<or> c_aud p \<noteq> Some ''blog-users''
                      \<or> c_iss p \<noteq> Some ''blog-system''))
            \<or> token \<in> bl)
         \<longrightarrow> (\<exists>d. authenticate L cfg strict dev bl now req = Respond 403 ''INVALID_TOKEN'' d))
   \<and> (\<forall>token e. extract_token (req_authorization req) = Some token
         \<and> fst (verifyToken L cfg strict bl now token req) = Inl e
         \<longrightarrow> authenticate L cfg strict dev bl now req
               = Respond 403 ''INVALID_TOKEN'' (if dev then Some (error_message e) else None))
   \<and> (\<forall>s c d. authenticate L cfg strict dev bl now req = Respond s c d
         \<longrightarrow> (s = 401 \<and> c = ''NO_TOKEN'' \<and> extract_token (req_authorization req) = None)
           \<or> (s = 403 \<and> c = ''INVALID_TOKEN''))"
proof (intro conjI allI impI)
  assume "extract_token (req_authorization req) = None"
  then show "authenticate L cfg strict dev bl now req = Respond 401 ''NO_TOKEN'' None"
    by (simp add: authenticate_def)
next
  assume "req_authorization req = None"
  then show "authenticate L cfg strict dev bl now req = Respond 401 ''NO_TOKEN'' None"
    by (simp add: authenticate_def extract_token_def)
next
  fix h
  assume "req_authorization req = Some h \<and> CHR '' '' \<notin> set h"
  then show "authenticate L cfg strict dev bl now req = Respond 401 ''NO_TOKEN'' None"
    by (simp add: authenticate_def extract_token_one_field)
next
  fix scheme
  assume "req_authorization req = Some (scheme @ '' '') \<and> CHR '' '' \<notin> set scheme"
  then show "authenticate L cfg strict dev bl now req = Respond 401 ''NO_TOKEN'' None"
    by (simp add: authenticate_def extract_token_empty_second)
next
  fix scheme token
  assume "req_authorization req = Some (scheme @ '' '' @ token)
         \<and> CHR '' '' \<notin> set scheme \<and> CHR '' '' \<notin> set token \<and> token \<noteq> []"
  then show "extract_token (req_authorization req) = Some token"
    using extract_token_second [of scheme token] by simp
next
  fix token
  assume a: "extract_token (req_authorization req) = Some token
         \<and> (decode L (jwtSecret cfg) token = Malformed
            \<or> decode L (jwtSecret cfg) token = BadSignature
            \<or> (\<exists>p. decode L (jwtSecret cfg) token = Payload p
                   \<and> ((\<exists>e. c_exp p = Some e \<and> e \<le> now div 1000)
                      \<or> c_aud p \<noteq> Some ''blog-users''
                      \<or> c_iss p \<noteq> Some ''blog-system''))
            \<or> token \<in> bl)"
  then have "isl (jwt_verify L (jwtSecret cfg) now token) \<or> token \<in> bl"
    unfolding jwt_verify_fails_iff by blast
  then have "isl (fst (verifyToken L cfg strict bl now token req))"
    unfolding verifyToken_fails_iff .
  with a show "\<exists>d. authenticate L cfg strict dev bl now req = Respond 403 ''INVALID_TOKEN'' d"
    using authenticate_on_failure by blast
next
  fix token e
  assume "extract_token (req_authorization req) = Some token
         \<and> fst (verifyToken L cfg strict bl now token req) = Inl e"
  then show "authenticate L cfg strict dev bl now req
               = Respond 403 ''INVALID_TOKEN'' (if dev then Some (error_message e) else None)"
    by (simp add: authenticate_def)
next
  fix s c d
  assume "authenticate L cfg strict dev bl now req = Respond s c d"
  then show "(s = 401 \<and> c = ''NO_TOKEN'' \<and> extract_token (req_authorization req) = None)
           \<or> (s = 403 \<and> c = ''INVALID_TOKEN'')"
    by (auto simp: authenticate_def split: option.splits sum.splits if_splits)
qed

lemma extract_bearer: "extract_token (Some ''Bearer h.p.s'') = Some ''h.p.s''"
  by (simp add: extract_token_def)

theorem authentication_error_taxonomy_witness:
  "extract_token (req_authorization (browser_request\<lparr> req_authorization := Some ''Bearer'' \<rparr>)) = None
   \<and> authenticate demo_lib (server_config ''k'') False False {} 1060000
        (browser_request\<lparr> req_authorization := Some ''Bearer'' \<rparr>) = Respond 401 ''NO_TOKEN'' None
   \<and> extract_token (req_authorization browser_request) = Some ''h.p.s''
   \<and> decode demo_lib (jwtSecret (server_config ''other'')) ''h.p.s'' = BadSignature
   \<and> (\<exists>d. authenticate demo_lib (server_config ''other'') False False {} 1060000 browser_request
            = Respond 403 ''INVALID_TOKEN'' d)"
proof -
  have a: "extract_token (req_authorization (browser_request\<lparr> req_authorization := Some ''Bearer'' \<rparr>)) = None"
    by (simp add: extract_token_def)
  have b: "extract_token (req_authorization browser_request) = Some ''h.p.s''"
    by (simp add: browser_request_def extract_bearer)
  have c: "decode demo_lib (jwtSecret (server_config ''other'')) ''h.p.s'' = BadSignature"
    by (simp add: demo_lib_def one_token_lib_def server_config_def)
  from authentication_error_taxonomy
         [of "browser_request\<lparr> req_authorization := Some ''Bearer'' \<rparr>" demo_lib
             "server_config ''k''" False False "{}" 1060000] a
  have one: "authenticate demo_lib (server_config ''k'') False False {} 1060000
        (browser_request\<lparr> req_authorization := Some ''Bearer'' \<rparr>) = Respond 401 ''NO_TOKEN'' None"
    by blast
  from authentication_error_taxonomy
         [of browser_request demo_lib "server_config ''other''" False False "{}" 1060000] b c
  have two: "\<exists>d. authenticate demo_lib (server_config ''other'') False False {} 1060000 browser_request
            = Respond 403 ''INVALID_TOKEN'' d"
    by blast
  show ?thesis using a b c one two by blast
qed

lemma revoke_all_eq: "revoke_all tokens bl = set tokens \<union> bl"
  unfolding revoke_all_def by (induction tokens arbitrary: bl) (auto simp: revokeToken_def)

lemma logout_keeps_revocations:
  "tokenBlacklist \<subseteq> snd (logout L cfg strict dev now req tokenBlacklist)"
  by (auto simp: logout_def revokeToken_def split: auth_result.splits)

lemma many_tokens_distinct: "distinct many_tokens"
proof -
  have inj: "inj_on (\<lambda>n. replicate (Suc n) CHR ''t'') (set [0..<1000])"
    by (rule inj_onI) (metis length_replicate nat.inject)
  have d: "distinct (map (\<lambda>n. replicate (Suc n) CHR ''t'') [0..<1000])"
    using inj by (simp add: distinct_map)
  have "''h.p.s'' \<notin> set (map (\<lambda>n. replicate (Suc n) CHR ''t'') [0..<1000])"
    by auto
  with d show ?thesis by (simp add: many_tokens_def)
qed

lemma many_tokens_length: "length many_tokens = 1001"
  by (simp add: many_tokens_def)

text \<open>
  Claim C1 (registry overflow). The code at the input of the claim: 1001 distinct tokens are
  revoked, the first of them a token that the library accepts and that is within its 30
  minutes. \<open>revokeToken\<close> only adds, the logout handler only calls \<open>revokeToken\<close>, and
  nothing in the repository calls \<open>cleanupBlacklist\<close>, so the registry holds 1001
  entries and the first token is still refused as revoked. Were \<open>cleanupBlacklist\<close> run on that registry, it would empty it and
  the token would verify again.
\<close>

theorem revocations_alone_never_clear:
  "card (revoke_all many_tokens {}) = 1001
   \<and> ''h.p.s'' \<in> revoke_all many_tokens {}
   \<and> jwt_verify demo_lib (jwtSecret (server_config ''k'')) 1060000 ''h.p.s'' = Inr admin_claims
   \<and> fst (verifyToken demo_lib (server_config ''k'') False (revoke_all many_tokens {}) 1060000
            ''h.p.s'' browser_request) = Inl (ValidationFailed Revoked)
   \<and> fst (verifyToken demo_lib (server_config ''k'') False
            (cleanupBlacklist (revoke_all many_tokens {})) 1060000 ''h.p.s'' browser_request)
       = Inr admin_claims"
proof -
  have c: "card (revoke_all many_tokens {}) = 1001"
    using distinct_card [OF many_tokens_distinct] by (simp add: revoke_all_eq many_tokens_length)
  have m: "''h.p.s'' \<in> revoke_all many_tokens {}"
    by (simp add: revoke_all_eq many_tokens_def)
  have v: "jwt_verify demo_lib (jwtSecret (server_config ''k'')) 1060000 ''h.p.s'' = Inr admin_claims"
    by (simp add: jwt_verify_def demo_lib_def one_token_lib_def server_config_def admin_claims_def
        sign_claims_def token_payload_def token_lifetime_def)
  have r: "fst (verifyToken demo_lib (server_config ''k'') False (revoke_all many_tokens {}) 1060000
            ''h.p.s'' browser_request) = Inl (ValidationFailed Revoked)"
    using m by (simp add: verifyToken_def v)
  have e: "cleanupBlacklist (revoke_all many_tokens {}) = {}"
    by (simp add: cleanupBlacklist_def c)
  have k: "fst (verifyToken demo_lib (server_config ''k'') False
            (cleanupBlacklist (revoke_all many_tokens {})) 1060000 ''h.p.s'' browser_request)
       = Inr admin_claims"
    unfolding e by (simp add: verifyToken_def v)
  show ?thesis using c m v r k by simp
qed

text \<open>
  Round trip of issuance and verification, under the library's contract: before expiry and
  unless revoked, the claims returned for an issued token carry the id, the username and
  the role of the user it was issued for.
\<close>

lemma round_trip_claims:
  assumes "reads_back L (jwtSecret cfg) (sign_claims (token_payload user req t0))"
    and "t div 1000 < t0 div 1000 + 30 * 60"
    and "generateToken L cfg user req t0 \<notin> bl"
  shows "\<exists>c. fst (verifyToken L cfg strict bl t (generateToken L cfg user req t0) req') = Inr c
           \<and> c_username c = username user \<and> c_role c = role user \<and> c_id c = user_id user"
  using assms
  by (simp add: verifyToken_def jwt_verify_def generateToken_def jwt_sign_def reads_back_def
      sign_claims_def token_payload_def token_lifetime_def)

subsection \<open>Client session mirror\<close>

lemma startSessionTimer_eq:
  assumes "timers_wf b"
  shows "startSessionTimer now b =
     b\<lparr> pending := filter (\<lambda>t. Some (timer_id t) \<noteq> sessionTimer b \<and> Some (timer_id t) \<noteq> warningTimer b)
                       (pending b)
                     @ [\<lparr> timer_id = next_timer_id b, fires_at = now + 25 * 60 * 1000,
                          callback = ShowSessionWarning \<rparr>,
                        \<lparr> timer_id = Suc (next_timer_id b), fires_at = now + 30 * 60 * 1000,
                          callback = HandleSessionTimeout \<rparr>],
        next_timer_id := Suc (Suc (next_timer_id b)),
        warningTimer := Some (next_timer_id b),
        sessionTimer := Some (Suc (next_timer_id b)) \<rparr>"
  using assms
  by (cases "sessionTimer b"; cases "warningTimer b")
     (auto simp: startSessionTimer_def clearTimers_def clearTimeout_def setTimeout_def timers_wf_def
        client_sessionTimeout_def warningTime_def Let_def intro!: filter_cong)

text \<open>
  Claim C9 (client-side extension asymmetry). On a valid client session, a user-activity
  event stores the same session record with \<open>expiresAt\<close> set to now plus 30 minutes, the
  token, username, role, login time and CSRF placeholder unchanged, the fingerprint
  unchanged. Both timers are restarted: the timeouts that \<open>sessionTimer\<close> and
  \<open>warningTimer\<close> pointed to are no longer pending, two new ones are (the warning 25
  minutes and the logout 30 minutes after the instant they are set), the two fields point
  to the new ones, and every other pending timeout is left alone. The token string is the one the server issued, so it decodes to the same
  claims with the same \<open>exp\<close>: at any instant from the token's expiry up to the extended
  client expiry the mirror is valid while \<open>verifyToken\<close> fails as expired.
\<close>

theorem client_extension_asymmetry:
  assumes "getSession fp b = Some sd" and "isSessionValid t_check b sd" and "0 \<le> now"
    and "timers_wf b"
  shows "getSession fp (extendSession fp t_check now t_timers b) = Some (sd\<lparr> expiresAt := now + 30 * 60 * 1000 \<rparr>)
       \<and> auth_session (extendSession fp t_check now t_timers b) = Some (sd\<lparr> expiresAt := now + 30 * 60 * 1000 \<rparr>)
       \<and> auth_fingerprint (extendSession fp t_check now t_timers b) = auth_fingerprint b
       \<and> pending (extendSession fp t_check now t_timers b)
           = filter (\<lambda>t. Some (timer_id t) \<noteq> sessionTimer b \<and> Some (timer_id t) \<noteq> warningTimer b)
               (pending b)
             @ [\<lparr> timer_id = next_timer_id b, fires_at = t_timers + 25 * 60 * 1000,
                  callback = ShowSessionWarning \<rparr>,
                \<lparr> timer_id = Suc (next_timer_id b), fires_at = t_timers + 30 * 60 * 1000,
                  callback = HandleSessionTimeout \<rparr>]
       \<and> warningTimer (extendSession fp t_check now t_timers b) = Some (next_timer_id b)
       \<and> sessionTimer (extendSession fp t_check now t_timers b) = Some (Suc (next_timer_id b))
       \<and> (\<forall>h. sessionTimer b = Some h \<or> warningTimer b = Some h \<longrightarrow>
             h \<notin> timer_id ` set (pending (extendSession fp t_check now t_timers b)))
       \<and> timers_wf (extendSession fp t_check now t_timers b)
       \<and> (\<forall>sd'. getSession fp (extendSession fp t_check now t_timers b) = Some sd' \<longrightarrow>
             sd_token sd' = sd_token sd \<and> sd_username sd' = sd_username sd
           \<and> sd_role sd' = sd_role sd \<and> loginTime sd' = loginTime sd
           \<and> csrfToken sd' = csrfToken sd)
       \<and> (reads_back L (jwtSecret cfg) (sign_claims (token_payload user req0 t0))
          \<and> sd_token sd = generateToken L cfg user req0 t0
          \<and> (t0 div 1000 + 30 * 60) * 1000 \<le> t \<and> t \<le> now + 30 * 60 * 1000
          \<longrightarrow> (\<forall>sd'. getSession fp (extendSession fp t_check now t_timers b) = Some sd' \<longrightarrow>
                  isSessionValid t (extendSession fp t_check now t_timers b) sd'
                \<and> decode L (jwtSecret cfg) (sd_token sd')
                    = Payload (sign_claims (token_payload user req0 t0))
                \<and> c_exp (sign_claims (token_payload user req0 t0)) = Some (t0 div 1000 + 30 * 60)
                \<and> fst (verifyToken L cfg strict bl t (sd_token sd') req)
                    = Inl (ValidationFailed (Library JwtExpired))))"
proof -
  from assms(1) have s: "auth_session b = Some sd" "auth_fingerprint b = Some fp"
    by (auto simp: getSession_def split: option.splits if_splits)
  from assms(2) have tok: "sd_token sd \<noteq> []"
    by (auto simp: isSessionValid_def split: if_splits)
  let ?sd = "sd\<lparr> expiresAt := now + 30 * 60 * 1000 \<rparr>"
  let ?kept = "filter (\<lambda>t. Some (timer_id t) \<noteq> sessionTimer b \<and> Some (timer_id t) \<noteq> warningTimer b)
                 (pending b)"
  let ?new = "[\<lparr> timer_id = next_timer_id b, fires_at = t_timers + 25 * 60 * 1000,
                  callback = ShowSessionWarning \<rparr>,
               \<lparr> timer_id = Suc (next_timer_id b), fires_at = t_timers + 30 * 60 * 1000,
                  callback = HandleSessionTimeout \<rparr>]"
  let ?stored = "storeSession fp ?sd b"
  have wf_stored: "timers_wf ?stored"
    using assms(4) by (simp add: timers_wf_def storeSession_def split: option.splits)
  have ext: "extendSession fp t_check now t_timers b =
      b\<lparr> auth_session := Some ?sd, auth_active := Some ''true'', auth_fingerprint := Some fp,
         pending := ?kept @ ?new,
         next_timer_id := Suc (Suc (next_timer_id b)),
         warningTimer := Some (next_timer_id b),
         sessionTimer := Some (Suc (next_timer_id b)),
         warning_shown := False \<rparr>"
  proof -
    have sel: "pending ?stored = pending b" "sessionTimer ?stored = sessionTimer b"
      "warningTimer ?stored = warningTimer b" "next_timer_id ?stored = next_timer_id b"
      by (simp_all add: storeSession_def)
    have st: "startSessionTimer t_timers ?stored =
       ?stored\<lparr> pending := ?kept @ ?new,
          next_timer_id := Suc (Suc (next_timer_id b)),
          warningTimer := Some (next_timer_id b),
          sessionTimer := Some (Suc (next_timer_id b)) \<rparr>"
      using startSessionTimer_eq [OF wf_stored, of t_timers] unfolding sel by simp
    have ex: "extendSession fp t_check now t_timers b
                = hideSessionWarning (startSessionTimer t_timers ?stored)"
      using assms(1,2) by (simp add: extendSession_def client_sessionTimeout_def)
    show ?thesis unfolding ex st by (simp add: hideSessionWarning_def storeSession_def)
  qed
  have bound: "\<forall>t \<in> set (pending b). 0 < timer_id t \<and> timer_id t < next_timer_id b"
    using assms(4) by (simp add: timers_wf_def list_all_iff)
  have handles: "\<And>h. sessionTimer b = Some h \<or> warningTimer b = Some h \<Longrightarrow> 0 < h \<and> h < next_timer_id b"
    using assms(4) by (auto simp: timers_wf_def split: option.splits)
  have timers: "pending (extendSession fp t_check now t_timers b) = ?kept @ ?new"
    "warningTimer (extendSession fp t_check now t_timers b) = Some (next_timer_id b)"
    "sessionTimer (extendSession fp t_check now t_timers b) = Some (Suc (next_timer_id b))"
    unfolding ext by simp_all
  have gone: "\<forall>h. sessionTimer b = Some h \<or> warningTimer b = Some h \<longrightarrow>
             h \<notin> timer_id ` set (pending (extendSession fp t_check now t_timers b))"
  proof (intro allI impI)
    fix h assume h: "sessionTimer b = Some h \<or> warningTimer b = Some h"
    from handles [OF h] have "h \<noteq> next_timer_id b" "h \<noteq> Suc (next_timer_id b)" by auto
    moreover have "h \<notin> timer_id ` set ?kept" using h by auto
    ultimately show "h \<notin> timer_id ` set (pending (extendSession fp t_check now t_timers b))"
      unfolding timers(1) by auto
  qed
  have wf: "timers_wf (extendSession fp t_check now t_timers b)"
    unfolding ext using assms(4) bound
    by (auto simp: timers_wf_def list_all_iff split: option.splits)
  have g: "getSession fp (extendSession fp t_check now t_timers b) = Some ?sd"
    unfolding ext by (simp add: getSession_def)
  have frame: "auth_session (extendSession fp t_check now t_timers b) = Some ?sd"
    "auth_fingerprint (extendSession fp t_check now t_timers b) = auth_fingerprint b"
    unfolding ext using s by simp_all
  have asym: "isSessionValid t (extendSession fp t_check now t_timers b) ?sd
                \<and> decode L (jwtSecret cfg) (sd_token ?sd)
                    = Payload (sign_claims (token_payload user req0 t0))
                \<and> c_exp (sign_claims (token_payload user req0 t0)) = Some (t0 div 1000 + 30 * 60)
                \<and> fst (verifyToken L cfg strict bl t (sd_token ?sd) req)
                    = Inl (ValidationFailed (Library JwtExpired))"
    if rb: "reads_back L (jwtSecret cfg) (sign_claims (token_payload user req0 t0))"
      and tk: "sd_token sd = generateToken L cfg user req0 t0"
      and lo: "(t0 div 1000 + 30 * 60) * 1000 \<le> t" and hi: "t \<le> now + 30 * 60 * 1000"
  proof -
    have v: "isSessionValid t (extendSession fp t_check now t_timers b) ?sd"
      unfolding ext using tok hi assms(3) by (simp add: isSessionValid_def)
    have d: "decode L (jwtSecret cfg) (sd_token ?sd)
                    = Payload (sign_claims (token_payload user req0 t0))"
      using rb tk by (simp add: reads_back_def generateToken_def jwt_sign_def)
    have e: "c_exp (sign_claims (token_payload user req0 t0)) = Some (t0 div 1000 + 30 * 60)"
      by (simp add: sign_claims_def token_payload_def token_lifetime_def)
    have "t0 div 1000 + 30 * 60 \<le> t div 1000"
      using lo by (simp add: zdiv_mono1 [of "(t0 div 1000 + 30 * 60) * 1000" t 1000, simplified])
    then have x: "fst (verifyToken L cfg strict bl t (sd_token ?sd) req)
                    = Inl (ValidationFailed (Library JwtExpired))"
      using d e by (simp add: verifyToken_def jwt_verify_def)
    show ?thesis using v d e x by simp
  qed
  show ?thesis using g frame timers gone wf asym by auto
qed


theorem client_extension_asymmetry_witness:
  "getSession ''fp'' logged_in_browser = Some mirror_at_login
   \<and> isSessionValid 2000000 logged_in_browser mirror_at_login
   \<and> timers_wf logged_in_browser
   \<and> pending logged_in_browser
       = [\<lparr> timer_id = 1, fires_at = 2500085, callback = ShowSessionWarning \<rparr>,
          \<lparr> timer_id = 2, fires_at = 2800085, callback = HandleSessionTimeout \<rparr>]
   \<and> pending (extendSession ''fp'' 2000000 2000000 2000004 logged_in_browser)
       = [\<lparr> timer_id = 3, fires_at = 3500004, callback = ShowSessionWarning \<rparr>,
          \<lparr> timer_id = 4, fires_at = 3800004, callback = HandleSessionTimeout \<rparr>]
   \<and> warningTimer (extendSession ''fp'' 2000000 2000000 2000004 logged_in_browser) = Some 3
   \<and> sessionTimer (extendSession ''fp'' 2000000 2000000 2000004 logged_in_browser) = Some 4
   \<and> getSession ''fp'' (extendSession ''fp'' 2000000 2000000 2000004 logged_in_browser)
       = Some (mirror_at_login\<lparr> expiresAt := 3800000 \<rparr>)
   \<and> isSessionValid 2900000 (extendSession ''fp'' 2000000 2000000 2000004 logged_in_browser)
        (mirror_at_login\<lparr> expiresAt := 3800000 \<rparr>)
   \<and> fst (verifyToken demo_lib (server_config ''k'') False {} 2900000 ''h.p.s'' browser_request)
       = Inl (ValidationFailed (Library JwtExpired))"
proof -
  have lb: "logged_in_browser =
      \<lparr> auth_session = Some mirror_at_login, auth_fingerprint = Some ''fp'',
        auth_active = Some ''true'', sessionTimer = Some 2, warningTimer = Some 1,
        warning_shown = False,
        pending = [\<lparr> timer_id = 1, fires_at = 2500085, callback = ShowSessionWarning \<rparr>,
                   \<lparr> timer_id = 2, fires_at = 2800085, callback = HandleSessionTimeout \<rparr>],
        next_timer_id = 3 \<rparr>"
    by (simp add: logged_in_browser_def handleSuccessfulLogin_def startSessionTimer_def
        clearTimers_def setTimeout_def storeSession_def empty_browser_def mirror_at_login_def
        client_sessionTimeout_def warningTime_def Let_def)
  have g: "getSession ''fp'' logged_in_browser = Some mirror_at_login"
    unfolding lb by (simp add: getSession_def)
  have v: "isSessionValid 2000000 logged_in_browser mirror_at_login"
    unfolding lb by (simp add: isSessionValid_def mirror_at_login_def)
  have wf: "timers_wf logged_in_browser"
    unfolding lb by (simp add: timers_wf_def)
  have p: "pending logged_in_browser
       = [\<lparr> timer_id = 1, fires_at = 2500085, callback = ShowSessionWarning \<rparr>,
          \<lparr> timer_id = 2, fires_at = 2800085, callback = HandleSessionTimeout \<rparr>]"
    "sessionTimer logged_in_browser = Some 2" "warningTimer logged_in_browser = Some 1"
    "next_timer_id logged_in_browser = 3"
    unfolding lb by simp_all
  have n: "(0::int) \<le> 2000000" by simp
  have rb: "reads_back demo_lib (jwtSecret (server_config ''k''))
     (sign_claims (token_payload admin_row browser_request 1000000))"
    by (simp add: reads_back_def demo_lib_def one_token_lib_def server_config_def admin_claims_def)
  have tk: "sd_token mirror_at_login
              = generateToken demo_lib (server_config ''k'') admin_row browser_request 1000000"
    by (simp add: mirror_at_login_def generateToken_def jwt_sign_def demo_lib_def one_token_lib_def)
  have lo: "((1000000::int) div 1000 + 30 * 60) * 1000 \<le> 2900000" by simp
  have hi: "(2900000::int) \<le> 2000000 + 30 * 60 * 1000" by simp
  have e: "(2000000::int) + 30 * 60 * 1000 = 3800000" by simp
  have t: "sd_token (mirror_at_login\<lparr> expiresAt := 3800000 \<rparr>) = ''h.p.s''"
    by (simp add: mirror_at_login_def)
  from client_extension_asymmetry
         [where t_timers = 2000004 and L = demo_lib and cfg = "server_config ''k''"
            and user = admin_row and ?req0.0 = browser_request and ?t0.0 = 1000000
            and t = 2900000 and strict = False and bl = "{}" and req = browser_request,
          OF g v n wf]
  show ?thesis using g v wf p(1) rb tk lo hi unfolding e p by (auto simp: t)
qed

end
